theory Spec2Isabelle
  imports Complex_Main "HOL-Library.Multiset"
begin

section \<open>Data model of \<open>app.py\<close>\<close>

text \<open>
  Python \<open>str\<close> values are modelled as \<open>string\<close> (the UTF-8 bytes of the text) and
  \<open>bytes\<close> values as lists of 8-bit characters. The only string test of the program,
  \<open>endswith('.pdf')\<close>, has an ASCII argument, for which the byte view and the code-point
  view agree. Python integers are unbounded: \<open>int\<close>.
\<close>

type_synonym bytes = "char list"

text \<open>The text \<open>str(e)\<close> of a caught exception.\<close>

type_synonym exn = string

text \<open>
  A \<open>FileVersion\<close> of the storage SDK, as far as the program reads it
  (\<open>id_\<close>, \<open>file_name\<close>, \<open>size\<close>, \<open>upload_timestamp\<close>). The fields carry
  the prefix \<open>fv_\<close>: \<open>id_\<close> is not an Isabelle name, \<open>size\<close> is a constant of HOL, and
  \<open>file_name\<close> is also a variable of the source.
\<close>

record file_version =
  fv_id :: string
  fv_file_name :: string
  fv_size :: int
  fv_upload_timestamp :: int

text \<open>
  The dictionary built for each listed file in \<open>tab2\<close>, with the keys
  \<open>"id"\<close>, \<open>"name"\<close>, \<open>"size"\<close> and \<open>"upload_timestamp"\<close>.
\<close>

record entry =
  entry_id :: string
  entry_name :: string
  entry_size :: int
  entry_upload_timestamp :: int

section \<open>Python primitives used by the catalog\<close>

text \<open>\<open>s.endswith(suffix)\<close>.\<close>

definition endswith :: "string \<Rightarrow> string \<Rightarrow> bool" where
  "endswith s suffix \<longleftrightarrow>
     length suffix \<le> length s \<and> drop (length s - length suffix) s = suffix"

text \<open>
  A Python \<open>dict\<close> keeps its keys in insertion order. \<open>d[k] = v\<close> on a key that is
  already present replaces the value and leaves the key at its position; on a new key
  it appends the pair.
\<close>

type_synonym ('k, 'v) dict = "('k \<times> 'v) list"

fun dict_setitem :: "'k \<Rightarrow> 'v \<Rightarrow> ('k, 'v) dict \<Rightarrow> ('k, 'v) dict" where
  "dict_setitem k v [] = [(k, v)]"
| "dict_setitem k v ((k', v') # d) =
     (if k' = k then (k, v) # d else (k', v') # dict_setitem k v d)"

text \<open>\<open>list(d.values())\<close>.\<close>

definition dict_values :: "('k, 'v) dict \<Rightarrow> 'v list" where
  "dict_values d = map snd d"

text \<open>
  \<open>xs.sort(key=key, reverse=True)\<close>. Python's sort is stable, and with
  \<open>reverse=True\<close> elements with equal keys still keep their original order: the
  result is the stable sort by descending key. For integer keys that is the stable
  ascending sort by the negated key.
\<close>

definition list_sort_reverse :: "('a \<Rightarrow> int) \<Rightarrow> 'a list \<Rightarrow> 'a list" where
  "list_sort_reverse key xs = sort_key (\<lambda>x. - key x) xs"

section \<open>The catalog of \<open>tab2\<close>\<close>

text \<open>The dictionary literal of lines 143 to 148.\<close>

definition entry_of :: "file_version \<Rightarrow> entry" where
  "entry_of file_version =
     \<lparr>entry_id = fv_id file_version,
      entry_name = fv_file_name file_version,
      entry_size = fv_size file_version,
      entry_upload_timestamp = fv_upload_timestamp file_version\<rparr>"

text \<open>One iteration of the loop of lines 139 to 148, on the dictionary \<open>files\<close>.\<close>

definition files_step :: "file_version \<Rightarrow> (string, entry) dict \<Rightarrow> (string, entry) dict" where
  "files_step file_version files =
     (if endswith (fv_file_name file_version) ''.pdf''
      then dict_setitem (fv_file_name file_version) (entry_of file_version) files
      else files)"

text \<open>The whole loop, from \<open>files = {}\<close>.\<close>

definition build_files :: "file_version list \<Rightarrow> (string, entry) dict" where
  "build_files file_versions = fold files_step file_versions []"

text \<open>
  Lines 152 to 155: \<open>file_list = list(files.values())\<close>, sorted by
  \<open>upload_timestamp\<close>, most recent first.
\<close>

definition file_list_of :: "(string, entry) dict \<Rightarrow> entry list" where
  "file_list_of files = list_sort_reverse entry_upload_timestamp (dict_values files)"

definition catalog :: "file_version list \<Rightarrow> entry list" where
  "catalog file_versions = file_list_of (build_files file_versions)"

section \<open>What the page shows\<close>

text \<open>
  The texts of the page, one constructor for each message of the source, with the
  values the f-string inserts as arguments (the line of \<open>app.py\<close> is given).
\<close>

datatype message =
    Arquivo string int                          \<comment> \<open>92: name and size in bytes\<close>
  | Arquivo_enviado_com_sucesso string          \<comment> \<open>111: ID\<close>
  | Erro_ao_enviar_arquivo exn                  \<comment> \<open>125\<close>
  | Erro_ao_baixar_arquivo exn                  \<comment> \<open>59\<close>
  | Erro_ao_gerar_URL_assinada exn              \<comment> \<open>75\<close>
  | URL_autorizada_gerada_com_sucesso           \<comment> \<open>183\<close>
  | Nao_foi_possivel_gerar_a_URL                \<comment> \<open>203: "... Tentando metodo alternativo..."\<close>
  | PDF_carregado_usando_metodo_alternativo     \<comment> \<open>209\<close>
  | Erro_ao_visualizar_arquivo exn              \<comment> \<open>230\<close>
  | Erro_ao_preparar_download exn               \<comment> \<open>252\<close>
  | Nenhum_arquivo_PDF_encontrado_no_bucket     \<comment> \<open>254\<close>
  | Erro_ao_listar_arquivos exn                 \<comment> \<open>257\<close>

text \<open>
  The Streamlit calls that put something on the page. \<open>St_markdown_link href\<close> is the
  \<open>st.markdown\<close> of the anchor "Abrir PDF em nova aba" with that \<open>href\<close>;
  \<open>St_selectbox\<close> carries the entries its options are made from, in order;
  \<open>St_download_button data file_name\<close> is the download button (its label and MIME type
  are constants).
\<close>

datatype widget =
    St_info message
  | St_success message
  | St_error message
  | St_markdown_link string
  | St_selectbox "entry list"
  | St_download_button bytes string

section \<open>The collaborators: storage SDK, file system, session\<close>

text \<open>
  The object \<open>bucket.download_file_by_id\<close> returns. Its \<open>save(f)\<close> streams the content
  into the open file and may raise after some of the bytes are written:
  \<open>save_error = Some (n, e)\<close> raises \<open>e\<close> after \<open>n\<close> bytes.
\<close>

record downloaded_file =
  content :: bytes
  save_error :: "(nat \<times> exn) option"

text \<open>
  The bucket of the SDK: each method either raises (\<open>Inl\<close>, with the text of the
  exception) or returns (\<open>Inr\<close>). \<open>upload_bytes\<close> returns the \<open>id_\<close> of the new file.
\<close>

record bucket_api =
  ls :: "exn + file_version list"
  upload_bytes :: "bytes \<Rightarrow> string \<Rightarrow> exn + string"
  download_file_by_id :: "string \<Rightarrow> exn + downloaded_file"
  get_download_authorization :: "string \<Rightarrow> nat \<Rightarrow> exn + string"
  get_download_url :: "string \<Rightarrow> exn + string"

text \<open>The files of the machine, by path.\<close>

type_synonym fs = "string \<rightharpoonup> bytes"

text \<open>
  The operating system: \<open>tempfile.gettempdir()\<close>, and for each path whether
  \<open>open(path, 'wb')\<close>, reading the file opened with \<open>'rb'\<close>, and \<open>os.remove(path)\<close>
  raise (\<open>Some e\<close>) or not.
\<close>

record host =
  gettempdir :: string
  open_wb_error :: "string \<Rightarrow> exn option"
  read_error :: "string \<Rightarrow> exn option"
  remove_error :: "string \<Rightarrow> exn option"

text \<open>\<open>os.path.join(a, b)\<close> (POSIX).\<close>

definition os_path_join :: "string \<Rightarrow> string \<Rightarrow> string" where
  "os_path_join a b =
     (if b \<noteq> [] \<and> hd b = CHR ''/'' then b
      else if a = [] \<or> last a = CHR ''/'' then a @ b
      else a @ ''/'' @ b)"

text \<open>
  An element of \<open>st.session_state.uploaded_files\<close>; \<open>time.time()\<close> is a reading of the
  clock, an input of the model.
\<close>

record session_upload =
  upload_name :: string
  upload_id :: string
  upload_size :: int
  upload_time :: real

text \<open>
  \<open>st.session_state\<close>: \<open>None\<close> while the key \<open>'uploaded_files'\<close> is absent.
\<close>

type_synonym session_state = "session_upload list option"

section \<open>\<open>download_file_from_b2\<close>\<close>

text \<open>
  The body of the \<open>try\<close>, lines 45 to 57, on the file system: the result is the
  exception that leaves the block or the value returned, with the files afterwards.
\<close>

definition download_try ::
  "bucket_api \<Rightarrow> host \<Rightarrow> fs \<Rightarrow> string \<Rightarrow> string \<Rightarrow> (exn + bytes) \<times> fs" where
  "download_try bucket h files file_id file_name =
     (let temp_file_path = os_path_join (gettempdir h) file_name in
      case download_file_by_id bucket file_id of
        Inl e \<Rightarrow> (Inl e, files)
      | Inr download_dest \<Rightarrow>
          (case open_wb_error h temp_file_path of
             Some e \<Rightarrow> (Inl e, files)
           | None \<Rightarrow>
               (case save_error download_dest of
                  Some (n, e) \<Rightarrow>
                    (Inl e, files(temp_file_path \<mapsto> take n (content download_dest)))
                | None \<Rightarrow>
                    (let files1 = files(temp_file_path \<mapsto> content download_dest) in
                     case read_error h temp_file_path of
                       Some e \<Rightarrow> (Inl e, files1)
                     | None \<Rightarrow>
                         (let file_content = content download_dest in
                          if files1 temp_file_path \<noteq> None
                          then (case remove_error h temp_file_path of
                                  Some e \<Rightarrow> (Inl e, files1)
                                | None \<Rightarrow> (Inr file_content, files1(temp_file_path := None)))
                          else (Inr file_content, files1))))))"

text \<open>
  The function: the handler of line 58 reports the exception and raises it again; it
  does not touch the file.
\<close>

definition download_file_from_b2 ::
  "bucket_api \<Rightarrow> host \<Rightarrow> fs \<Rightarrow> string \<Rightarrow> string \<Rightarrow> (exn + bytes) \<times> fs \<times> widget list" where
  "download_file_from_b2 bucket h files file_id file_name =
     (case download_try bucket h files file_id file_name of
        (Inl e, files') \<Rightarrow> (Inl e, files', [St_error (Erro_ao_baixar_arquivo e)])
      | (Inr file_content, files') \<Rightarrow> (Inr file_content, files', []))"

section \<open>\<open>get_signed_url\<close>\<close>

definition get_signed_url :: "bucket_api \<Rightarrow> string \<Rightarrow> nat \<Rightarrow> string option \<times> widget list" where
  "get_signed_url bucket file_name valid_duration =
     (case get_download_authorization bucket file_name valid_duration of
        Inl e \<Rightarrow> (None, [St_error (Erro_ao_gerar_URL_assinada e)])
      | Inr auth_token \<Rightarrow>
          (case get_download_url bucket file_name of
             Inl e \<Rightarrow> (None, [St_error (Erro_ao_gerar_URL_assinada e)])
           | Inr base_url \<Rightarrow> (Some (base_url @ ''?Authorization='' @ auth_token), [])))"

section \<open>The two buttons of \<open>tab2\<close>\<close>

text \<open>Python's truth value of \<open>file_url\<close>: \<open>None\<close> and the empty string are false.\<close>

definition truthy :: "string option \<Rightarrow> bool" where
  "truthy file_url = (case file_url of None \<Rightarrow> False | Some u \<Rightarrow> u \<noteq> [])"

text \<open>
  "Visualizar PDF", lines 174 to 230. \<open>b64encode\<close> is
  \<open>base64.b64encode(...).decode()\<close> of the standard library, a parameter.
\<close>

definition visualizar_pdf ::
  "(bytes \<Rightarrow> string) \<Rightarrow> bucket_api \<Rightarrow> host \<Rightarrow> fs \<Rightarrow> entry \<Rightarrow> fs \<times> widget list" where
  "visualizar_pdf b64encode bucket h files selected_file =
     (let file_id = entry_id selected_file;
          file_name = entry_name selected_file;
          (file_url, shown) = get_signed_url bucket file_name 60
      in if truthy file_url
         then (files, shown @ [St_success URL_autorizada_gerada_com_sucesso,
                               St_markdown_link (the file_url)])
         else (case download_file_from_b2 bucket h files file_id file_name of
                 (Inl e, files', shown') \<Rightarrow>
                   (files', shown @ [St_error Nao_foi_possivel_gerar_a_URL] @ shown'
                            @ [St_error (Erro_ao_visualizar_arquivo e)])
               | (Inr pdf_bytes, files', shown') \<Rightarrow>
                   (files', shown @ [St_error Nao_foi_possivel_gerar_a_URL] @ shown'
                            @ [St_success PDF_carregado_usando_metodo_alternativo,
                               St_markdown_link
                                 (''data:application/pdf;base64,'' @ b64encode pdf_bytes)])))"

text \<open>"Download PDF", lines 235 to 252.\<close>

definition download_pdf :: "bucket_api \<Rightarrow> host \<Rightarrow> fs \<Rightarrow> entry \<Rightarrow> fs \<times> widget list" where
  "download_pdf bucket h files selected_file =
     (let file_id = entry_id selected_file;
          file_name = entry_name selected_file
      in case download_file_from_b2 bucket h files file_id file_name of
           (Inl e, files', shown) \<Rightarrow> (files', shown @ [St_error (Erro_ao_preparar_download e)])
         | (Inr pdf_bytes, files', shown) \<Rightarrow>
             (files', shown @ [St_download_button pdf_bytes file_name]))"

section \<open>The tabs and the script\<close>

text \<open>What the user does in \<open>tab2\<close> in one run of the script.\<close>

datatype button = No_button | Visualizar_PDF | Download_PDF

text \<open>
  Line 160 (and again line 165) makes the label of each option with \<open>file['size']/1024\<close>.
  The division of two Python integers gives the nearest float and raises
  \<open>OverflowError\<close> when that is not finite, that is when the quotient is at least
  \<open>2^1024 - 2^970\<close> in absolute value. The \<open>.2f\<close> formatting of a float does not raise.
\<close>

definition label_overflows :: "int \<Rightarrow> bool" where
  "label_overflows file_size \<longleftrightarrow> 2 ^ 1034 - 2 ^ 980 \<le> \<bar>file_size\<bar>"

text \<open>
  The two columns under the select box, lines 168 to 252: at most one of the two
  buttons is pressed in a run.
\<close>

definition tab2_buttons ::
  "(bytes \<Rightarrow> string) \<Rightarrow> bucket_api \<Rightarrow> host \<Rightarrow> button \<Rightarrow> fs \<Rightarrow> entry \<Rightarrow> fs \<times> widget list" where
  "tab2_buttons b64encode bucket h pressed fs0 selected_file =
     (case pressed of
        No_button \<Rightarrow> (fs0, [])
      | Visualizar_PDF \<Rightarrow> visualizar_pdf b64encode bucket h fs0 selected_file
      | Download_PDF \<Rightarrow> download_pdf bucket h fs0 selected_file)"

text \<open>
  \<open>tab2\<close>, lines 130 to 257. \<open>init\<close> is the outcome of \<open>initialize_b2()\<close>. An
  \<open>OverflowError\<close> of a label is raised before the select box is made and is caught at
  line 256. The select box returns the label of one of its options, and the labels of
  entries with different names differ, so \<open>.index\<close> finds the position of the chosen
  option: the input \<open>selected_index\<close> is that position, taken modulo the number of
  options so that every value of it names an option.
\<close>

definition tab2 ::
  "(bytes \<Rightarrow> string) \<Rightarrow> (exn + bucket_api) \<Rightarrow> host \<Rightarrow> nat \<Rightarrow> button \<Rightarrow> fs \<Rightarrow> fs \<times> widget list" where
  "tab2 b64encode init h selected_index pressed fs0 =
     (case init of
        Inl e \<Rightarrow> (fs0, [St_error (Erro_ao_listar_arquivos e)])
      | Inr bucket \<Rightarrow>
          (case ls bucket of
             Inl e \<Rightarrow> (fs0, [St_error (Erro_ao_listar_arquivos e)])
           | Inr file_versions \<Rightarrow>
               (let files = build_files file_versions in
                if files \<noteq> []
                then (let file_list = file_list_of files in
                      if list_ex (\<lambda>file. label_overflows (entry_size file)) file_list
                      then (fs0, [St_error (Erro_ao_listar_arquivos
                                    ''integer division result too large for a float'')])
                      else (let selected_file = file_list ! (selected_index mod length file_list);
                                (fs1, shown) = tab2_buttons b64encode bucket h pressed fs0 selected_file
                            in (fs1, St_selectbox file_list # shown)))
                else (fs0, [St_info Nenhum_arquivo_PDF_encontrado_no_bucket]))))"

text \<open>
  \<open>tab1\<close>, lines 88 to 125: the file chosen in the uploader (name and bytes), whether
  "Enviar para o Backblaze" is pressed, and the clock. It is the only place that
  writes \<open>st.session_state\<close>. The length of a \<open>bytes\<close> object is below \<open>2^63\<close>, so the
  division \<open>file_size/1024\<close> of line 92 does not overflow.
\<close>

definition tab1 ::
  "(exn + bucket_api) \<Rightarrow> (string \<times> bytes) option \<Rightarrow> bool \<Rightarrow> real \<Rightarrow> session_state
     \<Rightarrow> session_state \<times> widget list" where
  "tab1 init uploaded_file pressed now session =
     (case uploaded_file of
        None \<Rightarrow> (session, [])
      | Some (file_name, file_data) \<Rightarrow>
          (let file_size = int (length file_data);
               shown = [St_info (Arquivo file_name file_size)]
           in if pressed
              then (case init of
                      Inl e \<Rightarrow> (session, shown @ [St_error (Erro_ao_enviar_arquivo e)])
                    | Inr bucket \<Rightarrow>
                        (case upload_bytes bucket file_data file_name of
                           Inl e \<Rightarrow> (session, shown @ [St_error (Erro_ao_enviar_arquivo e)])
                         | Inr new_id \<Rightarrow>
                             (Some ((case session of None \<Rightarrow> [] | Some ups \<Rightarrow> ups)
                                    @ [\<lparr>upload_name = file_name, upload_id = new_id,
                                        upload_size = file_size, upload_time = now\<rparr>]),
                              shown @ [St_success (Arquivo_enviado_com_sucesso new_id)])))
              else (session, shown)))"

text \<open>
  One run of the script: \<open>tab1\<close>, then \<open>tab2\<close>. The state is the session and the file
  system; the result also has what each tab shows. Each tab calls \<open>initialize_b2()\<close>
  itself: \<open>init1\<close> and \<open>init2\<close> are the two outcomes (the same bucket when the first call
  returned, since the result is cached). What the bucket lists in \<open>tab2\<close> is an outcome
  of the storage service, also after an upload in the same run.
\<close>

record user_input =
  inp_uploaded_file :: "(string \<times> bytes) option"
  inp_enviar :: bool
  inp_selected :: nat
  inp_button :: button

definition app ::
  "(bytes \<Rightarrow> string) \<Rightarrow> (exn + bucket_api) \<Rightarrow> (exn + bucket_api) \<Rightarrow> host \<Rightarrow> real
     \<Rightarrow> user_input \<Rightarrow> session_state \<times> fs
     \<Rightarrow> (session_state \<times> fs) \<times> widget list \<times> widget list" where
  "app b64encode init1 init2 h now inp st =
     (let (session', shown1) = tab1 init1 (inp_uploaded_file inp) (inp_enviar inp) now (fst st);
          (fs', shown2) = tab2 b64encode init2 h (inp_selected inp) (inp_button inp) (snd st)
      in ((session', fs'), shown1, shown2))"

section \<open>Invariant of the dictionary \<open>files\<close>\<close>

text \<open>
  Every key of \<open>files\<close> is the name of its value and ends in \<open>.pdf\<close>.
\<close>

definition well_keyed :: "(string, entry) dict \<Rightarrow> bool" where
  "well_keyed d \<longleftrightarrow> (\<forall>(k, v) \<in> set d. entry_name v = k \<and> endswith k ''.pdf'')"

section \<open>Lemmas about the primitives\<close>


lemma keys_dict_setitem:
  "map fst (dict_setitem k v d) = (if k \<in> fst ` set d then map fst d else map fst d @ [k])"
  by (induction d) force+

lemma distinct_dict_setitem:
  "distinct (map fst d) \<Longrightarrow> distinct (map fst (dict_setitem k v d))"
  by (simp add: keys_dict_setitem)

lemma set_dict_setitem: "set (dict_setitem k v d) \<subseteq> insert (k, v) (set d)"
  by (induction d) (auto split: if_splits)

lemma distinct_fold_files_step:
  "distinct (map fst d) \<Longrightarrow> distinct (map fst (fold files_step fvs d))"
  by (induction fvs arbitrary: d) (simp_all add: files_step_def distinct_dict_setitem)

lemma well_keyed_files_step: "well_keyed d \<Longrightarrow> well_keyed (files_step x d)"
  using set_dict_setitem [of "fv_file_name x" "entry_of x" d]
  by (auto simp: well_keyed_def files_step_def entry_of_def)

lemma well_keyed_fold: "well_keyed d \<Longrightarrow> well_keyed (fold files_step fvs d)"
  by (induction fvs arbitrary: d) (simp_all add: well_keyed_files_step)

lemma distinct_build_files: "distinct (map fst (build_files fvs))"
  by (simp add: build_files_def distinct_fold_files_step)

lemma well_keyed_build_files: "well_keyed (build_files fvs)"
  unfolding build_files_def by (rule well_keyed_fold) (simp add: well_keyed_def)

lemma names_dict_values: "well_keyed d \<Longrightarrow> map entry_name (dict_values d) = map fst d"
  by (induction d) (auto simp: well_keyed_def dict_values_def)

lemma set_catalog: "set (catalog fvs) = snd ` set (build_files fvs)"
  by (simp add: catalog_def file_list_of_def list_sort_reverse_def dict_values_def)

lemma distinct_map_sort_key: "distinct (map f (sort_key g xs)) = distinct (map f xs)"
  by (simp add: distinct_map)




lemma fold_files_step_no_pdf:
  "\<forall>r \<in> set fvs. \<not> endswith (fv_file_name r) ''.pdf'' \<Longrightarrow> fold files_step fvs d = d"
  by (induction fvs arbitrary: d) (simp_all add: files_step_def)

lemma keys_fold_files_step:
  "map fst (fold files_step fvs []) =
     rev (remdups (rev (filter (\<lambda>n. endswith n ''.pdf'') (map fv_file_name fvs))))"
proof (induction fvs rule: rev_induct)
  case Nil
  show ?case by simp
next
  case (snoc x xs)
  let ?d = "fold files_step xs []"
  let ?names = "filter (\<lambda>n. endswith n ''.pdf'') (map fv_file_name xs)"
  have "set (map fst ?d) = set ?names"
    by (simp only: snoc set_rev set_remdups)
  then have keys: "fst ` set ?d = set ?names" by simp
  show ?case
  proof (cases "endswith (fv_file_name x) ''.pdf''")
    case True
    then have "map fst (fold files_step (xs @ [x]) []) =
        (if fv_file_name x \<in> set ?names then map fst ?d else map fst ?d @ [fv_file_name x])"
      by (simp add: files_step_def keys_dict_setitem keys)
    with True snoc show ?thesis by simp
  next
    case False
    with snoc show ?thesis by (simp add: files_step_def)
  qed
qed

lemma endswith_same_length:
  "endswith s a \<Longrightarrow> endswith s b \<Longrightarrow> length a = length b \<Longrightarrow> a = b"
  by (simp add: endswith_def)


section \<open>The catalog: one entry per name, order, filter\<close>

text \<open>
  Claim C2. For every sequence of listed file versions, the catalog has at most one
  entry per file name: the names of its entries are pairwise distinct.
\<close>

theorem catalog_one_entry_per_name: "distinct (map entry_name (catalog file_versions))"
proof -
  have "distinct (map entry_name (dict_values (build_files file_versions)))"
    by (simp add: names_dict_values well_keyed_build_files distinct_build_files)
  then show ?thesis
    by (simp add: catalog_def file_list_of_def list_sort_reverse_def distinct_map_sort_key)
qed

text \<open>
  Claim C3. For every input the catalog is sorted by \<open>upload_timestamp\<close> in descending
  order. The order among entries with the same timestamp is fixed by the input: the
  sort is stable, so they stand as in \<open>list(files.values())\<close>, and the names there are
  the \<open>.pdf\<close> names of the input in the order of their first appearance. \<open>catalog\<close> is
  a function of the listing only (it reads neither clock nor session), so building it
  twice from the same input gives the same list.
\<close>

theorem catalog_sorted_descending_stable:
  "sorted_wrt (\<lambda>a b. entry_upload_timestamp a \<ge> entry_upload_timestamp b) (catalog file_versions)
   \<and> (\<forall>t. filter (\<lambda>e. entry_upload_timestamp e = t) (catalog file_versions)
          = filter (\<lambda>e. entry_upload_timestamp e = t) (dict_values (build_files file_versions)))
   \<and> map entry_name (dict_values (build_files file_versions))
       = rev (remdups (rev (filter (\<lambda>n. endswith n ''.pdf'') (map fv_file_name file_versions))))"
proof -
  let ?vs = "dict_values (build_files file_versions)"
  let ?ts = entry_upload_timestamp
  have cat: "catalog file_versions = sort_key (\<lambda>x. - ?ts x) ?vs"
    by (simp add: catalog_def file_list_of_def list_sort_reverse_def)
  have "sorted (map (\<lambda>x. - ?ts x) (catalog file_versions))"
    by (simp add: cat)
  then have sorted: "sorted_wrt (\<lambda>a b. ?ts a \<ge> ?ts b) (catalog file_versions)"
    by (simp add: sorted_map)
  have stable: "filter (\<lambda>e. ?ts e = t) (catalog file_versions) = filter (\<lambda>e. ?ts e = t) ?vs" for t
    using sort_key_stable [of "\<lambda>x. - ?ts x" "- t" ?vs] by (simp add: cat)
  have "map entry_name ?vs = map fst (build_files file_versions)"
    by (simp add: names_dict_values well_keyed_build_files)
  then have order: "map entry_name ?vs
      = rev (remdups (rev (filter (\<lambda>n. endswith n ''.pdf'') (map fv_file_name file_versions))))"
    by (simp add: build_files_def keys_fold_files_step)
  from sorted stable order show ?thesis by blast
qed

text \<open>
  Claim C6. The listing \<open>a.pdf\<close> at 100, \<open>a.pdf\<close> at 200, \<open>b.pdf\<close> at 150, in that order,
  gives exactly the catalog \<open>a.pdf\<close> at 200, \<open>b.pdf\<close> at 150, whatever the identifiers
  and sizes of the three versions.
\<close>

theorem catalog_scenario:
  "catalog
     [\<lparr>fv_id = i1, fv_file_name = ''a.pdf'', fv_size = s1, fv_upload_timestamp = 100\<rparr>,
      \<lparr>fv_id = i2, fv_file_name = ''a.pdf'', fv_size = s2, fv_upload_timestamp = 200\<rparr>,
      \<lparr>fv_id = i3, fv_file_name = ''b.pdf'', fv_size = s3, fv_upload_timestamp = 150\<rparr>]
   = [\<lparr>entry_id = i2, entry_name = ''a.pdf'', entry_size = s2, entry_upload_timestamp = 200\<rparr>,
      \<lparr>entry_id = i3, entry_name = ''b.pdf'', entry_size = s3, entry_upload_timestamp = 150\<rparr>]"
  by (simp add: catalog_def build_files_def files_step_def endswith_def entry_of_def
        file_list_of_def dict_values_def list_sort_reverse_def)

text \<open>
  Claim C4. Every entry of the catalog has a name that ends in \<open>.pdf\<close>, and no listed
  record whose name does not end in \<open>.pdf\<close> has its name in the catalog.
\<close>

theorem catalog_only_pdf:
  "(\<forall>e \<in> set (catalog file_versions). endswith (entry_name e) ''.pdf'')
   \<and> (\<forall>r \<in> set file_versions. \<not> endswith (fv_file_name r) ''.pdf''
          \<longrightarrow> fv_file_name r \<notin> entry_name ` set (catalog file_versions))"
proof -
  have "\<forall>e \<in> set (catalog file_versions). endswith (entry_name e) ''.pdf''"
    using well_keyed_build_files [of file_versions]
    by (auto simp: set_catalog well_keyed_def)
  then show ?thesis by auto
qed

theorem catalog_only_pdf_witness:
  "\<lparr>entry_id = ''4_z1'', entry_name = ''a.pdf'', entry_size = 10, entry_upload_timestamp = 7\<rparr>
     \<in> set (catalog [\<lparr>fv_id = ''4_z0'', fv_file_name = ''notes.txt'', fv_size = 3, fv_upload_timestamp = 9\<rparr>,
                      \<lparr>fv_id = ''4_z1'', fv_file_name = ''a.pdf'', fv_size = 10, fv_upload_timestamp = 7\<rparr>])
   \<and> endswith ''a.pdf'' ''.pdf''
   \<and> \<not> endswith ''notes.txt'' ''.pdf''
   \<and> ''notes.txt'' \<notin> entry_name `
         set (catalog [\<lparr>fv_id = ''4_z0'', fv_file_name = ''notes.txt'', fv_size = 3, fv_upload_timestamp = 9\<rparr>,
                       \<lparr>fv_id = ''4_z1'', fv_file_name = ''a.pdf'', fv_size = 10, fv_upload_timestamp = 7\<rparr>])"
proof -
  let ?txt = "\<lparr>fv_id = ''4_z0'', fv_file_name = ''notes.txt'', fv_size = 3, fv_upload_timestamp = 9\<rparr>"
  let ?pdf = "\<lparr>fv_id = ''4_z1'', fv_file_name = ''a.pdf'', fv_size = 10, fv_upload_timestamp = 7\<rparr>"
  let ?e = "\<lparr>entry_id = ''4_z1'', entry_name = ''a.pdf'', entry_size = 10, entry_upload_timestamp = 7\<rparr>"
  have mem: "?e \<in> set (catalog [?txt, ?pdf])"
    by (simp add: catalog_def build_files_def files_step_def endswith_def entry_of_def
        file_list_of_def dict_values_def list_sort_reverse_def)
  have not_pdf: "\<not> endswith (fv_file_name ?txt) ''.pdf''"
    by (simp add: endswith_def)
  from catalog_only_pdf [of "[?txt, ?pdf]"] mem have "endswith (entry_name ?e) ''.pdf''"
    by blast
  moreover from catalog_only_pdf [of "[?txt, ?pdf]"] not_pdf
  have "fv_file_name ?txt \<notin> entry_name ` set (catalog [?txt, ?pdf])"
    by simp
  ultimately show ?thesis using mem not_pdf by simp
qed

text \<open>
  Claim C5. When no listed record has a name ending in \<open>.pdf\<close> (in particular when the
  listing is empty), the catalog is empty and \<open>tab2\<close> does not fail: after a successful
  listing it shows the information message "Nenhum arquivo PDF encontrado no bucket."
  and no error, and leaves the files untouched. A failed listing is told apart by its
  own outcome (\<open>Inl\<close>), not by the empty catalog.
\<close>

theorem catalog_empty_is_not_an_error:
  assumes "\<forall>r \<in> set file_versions. \<not> endswith (fv_file_name r) ''.pdf''"
    and "ls bucket = Inr file_versions"
  shows "catalog file_versions = []
         \<and> tab2 b64encode (Inr bucket) h selected_index pressed fs0
             = (fs0, [St_info Nenhum_arquivo_PDF_encontrado_no_bucket])"
proof -
  from assms(1) have "build_files file_versions = []"
    by (simp add: build_files_def fold_files_step_no_pdf)
  with assms(2) show ?thesis
    by (simp add: catalog_def file_list_of_def list_sort_reverse_def dict_values_def tab2_def)
qed

theorem catalog_empty_is_not_an_error_witness:
  "catalog [] = []
   \<and> tab2 (\<lambda>b. b) (Inr \<lparr>ls = Inr [], upload_bytes = (\<lambda>d n. Inl ''off''),
                download_file_by_id = (\<lambda>i. Inl ''off''),
                get_download_authorization = (\<lambda>n t. Inl ''off''),
                get_download_url = (\<lambda>n. Inl ''off'')\<rparr>)
        \<lparr>gettempdir = ''/tmp'', open_wb_error = (\<lambda>p. None), read_error = (\<lambda>p. None),
           remove_error = (\<lambda>p. None)\<rparr> 0 No_button Map.empty
       = (Map.empty, [St_info Nenhum_arquivo_PDF_encontrado_no_bucket])
   \<and> \<not> endswith ''notes.txt'' ''.pdf''
   \<and> catalog [\<lparr>fv_id = ''4_z0'', fv_file_name = ''notes.txt'', fv_size = 3, fv_upload_timestamp = 9\<rparr>] = []"
proof -
  let ?txt = "\<lparr>fv_id = ''4_z0'', fv_file_name = ''notes.txt'', fv_size = 3, fv_upload_timestamp = 9\<rparr>"
  let ?b = "\<lambda>l. \<lparr>ls = Inr l, upload_bytes = (\<lambda>d n. Inl ''off''),
                download_file_by_id = (\<lambda>i. Inl ''off''),
                get_download_authorization = (\<lambda>n t. Inl ''off''),
                get_download_url = (\<lambda>n. Inl ''off'')\<rparr>"
  have not_pdf: "\<not> endswith ''notes.txt'' ''.pdf''"
    by (simp add: endswith_def)
  have "\<forall>r \<in> set []. \<not> endswith (fv_file_name r) ''.pdf''" by simp
  moreover have "ls (?b []) = Inr []" by simp
  ultimately have 1: "catalog [] = [] \<and>
      tab2 (\<lambda>b. b) (Inr (?b [])) \<lparr>gettempdir = ''/tmp'', open_wb_error = (\<lambda>p. None), read_error = (\<lambda>p. None),
           remove_error = (\<lambda>p. None)\<rparr> 0 No_button Map.empty
       = (Map.empty, [St_info Nenhum_arquivo_PDF_encontrado_no_bucket])"
    by (rule catalog_empty_is_not_an_error)
  have "\<forall>r \<in> set [?txt]. \<not> endswith (fv_file_name r) ''.pdf''"
    using not_pdf by simp
  moreover have "ls (?b [?txt]) = Inr [?txt]" by simp
  ultimately have "catalog [?txt] = [] \<and>
      tab2 (\<lambda>b. b) (Inr (?b [?txt])) \<lparr>gettempdir = ''/tmp'', open_wb_error = (\<lambda>p. None), read_error = (\<lambda>p. None),
           remove_error = (\<lambda>p. None)\<rparr> 0 No_button Map.empty
       = (Map.empty, [St_info Nenhum_arquivo_PDF_encontrado_no_bucket])"
    by (rule catalog_empty_is_not_an_error)
  with 1 not_pdf show ?thesis by simp
qed

text \<open>
  Claim C10. The filter is case-sensitive: a listed record whose name ends in a string
  of the length of \<open>.pdf\<close> that is not exactly \<open>.pdf\<close> (so every upper-case or mixed-case
  variant such as \<open>.PDF\<close>) does not have its name in the catalog.
\<close>

theorem extension_filter_case_sensitive:
  assumes "r \<in> set file_versions"
    and "endswith (fv_file_name r) ext"
    and "length ext = length ''.pdf''"
    and "ext \<noteq> ''.pdf''"
  shows "fv_file_name r \<notin> entry_name ` set (catalog file_versions)"
proof
  assume "fv_file_name r \<in> entry_name ` set (catalog file_versions)"
  then obtain e where "e \<in> set (catalog file_versions)" "entry_name e = fv_file_name r"
    by auto
  with well_keyed_build_files [of file_versions] have "endswith (fv_file_name r) ''.pdf''"
    by (auto simp: set_catalog well_keyed_def)
  with assms(2) have "ext = ''.pdf''"
    using assms(3) by (rule endswith_same_length)
  with assms(4) show False by simp
qed

theorem extension_filter_case_sensitive_witness:
  "endswith ''REPORT.PDF'' ''.PDF''
   \<and> ''REPORT.PDF'' \<notin> entry_name `
        set (catalog [\<lparr>fv_id = ''4_z2'', fv_file_name = ''REPORT.PDF'', fv_size = 3, fv_upload_timestamp = 9\<rparr>,
                      \<lparr>fv_id = ''4_z1'', fv_file_name = ''a.pdf'', fv_size = 10, fv_upload_timestamp = 7\<rparr>])"
proof -
  let ?up = "\<lparr>fv_id = ''4_z2'', fv_file_name = ''REPORT.PDF'', fv_size = 3, fv_upload_timestamp = 9\<rparr>"
  let ?pdf = "\<lparr>fv_id = ''4_z1'', fv_file_name = ''a.pdf'', fv_size = 10, fv_upload_timestamp = 7\<rparr>"
  have 1: "?up \<in> set [?up, ?pdf]" by simp
  have 2: "endswith (fv_file_name ?up) ''.PDF''" by (simp add: endswith_def)
  have 3: "length ''.PDF'' = length ''.pdf''" by simp
  have 4: "''.PDF'' \<noteq> ''.pdf''" by simp
  from extension_filter_case_sensitive [OF 1 2 3 4] 2 show ?thesis by simp
qed

section \<open>Which version of a name is kept\<close>




section \<open>The session does not reach the catalog\<close>

lemma catalog_empty_iff: "catalog file_versions = [] \<longleftrightarrow> build_files file_versions = []"
proof -
  have "length (catalog file_versions) = length (build_files file_versions)"
    by (simp add: catalog_def file_list_of_def list_sort_reverse_def dict_values_def)
  then show ?thesis by (metis length_0_conv)
qed

lemma app_shows_tab2:
  "snd (snd (app b64encode init1 init2 h now inp (session, files)))
     = snd (tab2 b64encode init2 h (inp_selected inp) (inp_button inp) files)"
  by (simp add: app_def split: prod.splits)

text \<open>
  Claim C9. The catalog of the browse view is a function of the listing alone. When
  the listing returns \<open>file_versions\<close>, what \<open>tab2\<close> shows in a run of the script is
  fixed by \<open>catalog file_versions\<close> and the input of \<open>tab2\<close>: the information message
  when the catalog is empty, and otherwise the select box of \<open>catalog file_versions\<close>
  followed by what the pressed button shows for the chosen entry (or, should a label
  overflow, the error of the listing). Two runs on the same listing show this same
  value whatever their session states (\<open>None\<close>, empty or not), clocks, uploads and
  outcomes of \<open>initialize_b2()\<close> in \<open>tab1\<close> are.
\<close>

theorem catalog_independent_of_session:
  assumes "ls bucket = Inr file_versions"
  shows "(let shown =
            (if catalog file_versions = []
             then [St_info Nenhum_arquivo_PDF_encontrado_no_bucket]
             else if list_ex (\<lambda>file. label_overflows (entry_size file)) (catalog file_versions)
             then [St_error (Erro_ao_listar_arquivos
                     ''integer division result too large for a float'')]
             else St_selectbox (catalog file_versions)
                  # snd (tab2_buttons b64encode bucket h (inp_button inp) files
                           (catalog file_versions
                              ! (inp_selected inp mod length (catalog file_versions)))))
          in snd (snd (app b64encode init1 (Inr bucket) h now1 inp (session1, files))) = shown
           \<and> snd (snd (app b64encode init1' (Inr bucket) h now2
                          (inp\<lparr>inp_uploaded_file := chosen, inp_enviar := pressed\<rparr>)
                          (session2, files))) = shown)"
proof -
  have "snd (tab2 b64encode (Inr bucket) h i p files) =
      (if catalog file_versions = []
       then [St_info Nenhum_arquivo_PDF_encontrado_no_bucket]
       else if list_ex (\<lambda>file. label_overflows (entry_size file)) (catalog file_versions)
       then [St_error (Erro_ao_listar_arquivos
               ''integer division result too large for a float'')]
       else St_selectbox (catalog file_versions)
            # snd (tab2_buttons b64encode bucket h p files
                     (catalog file_versions ! (i mod length (catalog file_versions)))))" for i p
    using assms
    by (simp add: tab2_def catalog_empty_iff [symmetric] Let_def split: prod.splits)
       (simp add: catalog_def)
  then show ?thesis
    by (simp add: app_shows_tab2 Let_def)
qed

theorem catalog_independent_of_session_witness:
  "ls \<lparr>ls = Inr [\<lparr>fv_id = ''4_z9'', fv_file_name = ''a.pdf'', fv_size = 2048,
                    fv_upload_timestamp = 200\<rparr>],
        upload_bytes = (\<lambda>d n. Inr ''4_z5''),
        download_file_by_id = (\<lambda>i. Inl ''off''),
        get_download_authorization = (\<lambda>n t. Inl ''off''),
        get_download_url = (\<lambda>n. Inl ''off'')\<rparr>
     = Inr [\<lparr>fv_id = ''4_z9'', fv_file_name = ''a.pdf'', fv_size = 2048, fv_upload_timestamp = 200\<rparr>]
   \<and> snd (snd (app (\<lambda>b. b)
        (Inl ''off'')
        (Inr \<lparr>ls = Inr [\<lparr>fv_id = ''4_z9'', fv_file_name = ''a.pdf'', fv_size = 2048,
                          fv_upload_timestamp = 200\<rparr>],
              upload_bytes = (\<lambda>d n. Inr ''4_z5''),
              download_file_by_id = (\<lambda>i. Inl ''off''),
              get_download_authorization = (\<lambda>n t. Inl ''off''),
              get_download_url = (\<lambda>n. Inl ''off'')\<rparr>)
        \<lparr>gettempdir = ''/tmp'', open_wb_error = (\<lambda>p. None), read_error = (\<lambda>p. None),
           remove_error = (\<lambda>p. None)\<rparr>
        5
        \<lparr>inp_uploaded_file = None, inp_enviar = False, inp_selected = 0, inp_button = No_button\<rparr>
        (None, Map.empty)))
     = [St_selectbox [\<lparr>entry_id = ''4_z9'', entry_name = ''a.pdf'', entry_size = 2048,
                       entry_upload_timestamp = 200\<rparr>]]
   \<and> snd (snd (app (\<lambda>b. b)
        (Inr \<lparr>ls = Inr [], upload_bytes = (\<lambda>d n. Inr ''4_z5''),
              download_file_by_id = (\<lambda>i. Inl ''off''),
              get_download_authorization = (\<lambda>n t. Inl ''off''),
              get_download_url = (\<lambda>n. Inl ''off'')\<rparr>)
        (Inr \<lparr>ls = Inr [\<lparr>fv_id = ''4_z9'', fv_file_name = ''a.pdf'', fv_size = 2048,
                          fv_upload_timestamp = 200\<rparr>],
              upload_bytes = (\<lambda>d n. Inr ''4_z5''),
              download_file_by_id = (\<lambda>i. Inl ''off''),
              get_download_authorization = (\<lambda>n t. Inl ''off''),
              get_download_url = (\<lambda>n. Inl ''off'')\<rparr>)
        \<lparr>gettempdir = ''/tmp'', open_wb_error = (\<lambda>p. None), read_error = (\<lambda>p. None),
           remove_error = (\<lambda>p. None)\<rparr>
        9
        \<lparr>inp_uploaded_file = Some (''c.pdf'', ''%PDF''), inp_enviar = True, inp_selected = 0,
           inp_button = No_button\<rparr>
        (Some [\<lparr>upload_name = ''b.pdf'', upload_id = ''4_z4'', upload_size = 4, upload_time = 1\<rparr>],
         Map.empty)))
     = [St_selectbox [\<lparr>entry_id = ''4_z9'', entry_name = ''a.pdf'', entry_size = 2048,
                       entry_upload_timestamp = 200\<rparr>]]"
proof -
  let ?fv = "\<lparr>fv_id = ''4_z9'', fv_file_name = ''a.pdf'', fv_size = 2048, fv_upload_timestamp = 200\<rparr>"
  let ?bucket = "\<lparr>ls = Inr [?fv], upload_bytes = (\<lambda>d n. Inr ''4_z5''),
              download_file_by_id = (\<lambda>i. Inl ''off''),
              get_download_authorization = (\<lambda>n t. Inl ''off''),
              get_download_url = (\<lambda>n. Inl ''off'')\<rparr>"
  let ?inp = "\<lparr>inp_uploaded_file = None, inp_enviar = False, inp_selected = 0, inp_button = No_button\<rparr>"
  have listing: "ls ?bucket = Inr [?fv]" by simp
  have cat: "catalog [?fv] = [\<lparr>entry_id = ''4_z9'', entry_name = ''a.pdf'', entry_size = 2048,
                       entry_upload_timestamp = 200\<rparr>]"
    by (simp add: catalog_def build_files_def files_step_def endswith_def entry_of_def
        file_list_of_def dict_values_def list_sort_reverse_def)
  have small: "\<not> label_overflows 2048"
    by (simp add: label_overflows_def)
  show ?thesis
    using catalog_independent_of_session [OF listing,
        where b64encode = "\<lambda>b. b"
          and h = "\<lparr>gettempdir = ''/tmp'', open_wb_error = (\<lambda>p. None),
                    read_error = (\<lambda>p. None), remove_error = (\<lambda>p. None)\<rparr>"
          and inp = ?inp and files = Map.empty
          and ?init1.0 = "Inl ''off''" and ?now1.0 = 5 and ?session1.0 = None
          and init1' = "Inr \<lparr>ls = Inr [], upload_bytes = (\<lambda>d n. Inr ''4_z5''),
              download_file_by_id = (\<lambda>i. Inl ''off''),
              get_download_authorization = (\<lambda>n t. Inl ''off''),
              get_download_url = (\<lambda>n. Inl ''off'')\<rparr>"
          and ?now2.0 = 9 and chosen = "Some (''c.pdf'', ''%PDF'')" and pressed = True
          and ?session2.0 = "Some [\<lparr>upload_name = ''b.pdf'', upload_id = ''4_z4'',
                                   upload_size = 4, upload_time = 1\<rparr>]"]
    by (simp add: cat small tab2_buttons_def Let_def)
qed

section \<open>The scratch file of a download\<close>

text \<open>
  When \<open>download_file_from_b2\<close> returns the bytes, the scratch file is gone.
\<close>

lemma download_success_removes:
  "download_file_from_b2 bucket h files file_id file_name = (Inr file_content, files', shown)
   \<Longrightarrow> files' (os_path_join (gettempdir h) file_name) = None"
  by (auto simp: download_file_from_b2_def download_try_def Let_def
      split: sum.splits option.splits prod.splits if_splits)

text \<open>
  Claim C8 does not hold of the code on the path of an exception: only the path that
  returns removes the scratch file, and the handler of line 58 reports and raises again
  without removing it. Here \<open>save\<close> raises after four of the eight bytes are written:
  the function raises, and \<open>/tmp/a.pdf\<close> is still there with the four bytes.
\<close>

theorem download_leaves_scratch_file_on_error:
  "fst (download_file_from_b2
         \<lparr>ls = Inr [], upload_bytes = (\<lambda>d n. Inl ''off''),
            download_file_by_id = (\<lambda>i. Inr \<lparr>content = ''%PDF-1.4'', save_error = Some (4, ''reset'')\<rparr>),
            get_download_authorization = (\<lambda>n t. Inl ''off''),
            get_download_url = (\<lambda>n. Inl ''off'')\<rparr>
         \<lparr>gettempdir = ''/tmp'', open_wb_error = (\<lambda>p. None), read_error = (\<lambda>p. None),
            remove_error = (\<lambda>p. None)\<rparr>
         Map.empty ''4_z1'' ''a.pdf'') = Inl ''reset''
   \<and> fst (snd (download_file_from_b2
         \<lparr>ls = Inr [], upload_bytes = (\<lambda>d n. Inl ''off''),
            download_file_by_id = (\<lambda>i. Inr \<lparr>content = ''%PDF-1.4'', save_error = Some (4, ''reset'')\<rparr>),
            get_download_authorization = (\<lambda>n t. Inl ''off''),
            get_download_url = (\<lambda>n. Inl ''off'')\<rparr>
         \<lparr>gettempdir = ''/tmp'', open_wb_error = (\<lambda>p. None), read_error = (\<lambda>p. None),
            remove_error = (\<lambda>p. None)\<rparr>
         Map.empty ''4_z1'' ''a.pdf'')) ''/tmp/a.pdf'' = Some ''%PDF''"
  by (simp add: download_file_from_b2_def download_try_def os_path_join_def)

section \<open>The fallback of "Visualizar PDF"\<close>

text \<open>
  Claim C7, as stated, fails in its last part: the fallback runs, but the page shows
  two errors on the way, the one of \<open>get_signed_url\<close> (line 75) and "Nao foi possivel
  gerar a URL. Tentando metodo alternativo..." (line 203), also when the download then
  succeeds and the data URL is produced.
\<close>

theorem fallback_surfaces_errors_counterexample:
  "snd (visualizar_pdf (\<lambda>b. ''JVBERi0xLjQ='')
         \<lparr>ls = Inr [], upload_bytes = (\<lambda>d n. Inl ''off''),
            download_file_by_id = (\<lambda>i. Inr \<lparr>content = ''%PDF-1.4'', save_error = None\<rparr>),
            get_download_authorization = (\<lambda>n t. Inl ''unauthorized''),
            get_download_url = (\<lambda>n. Inr ''https://f000.example/file/b/a.pdf'')\<rparr>
         \<lparr>gettempdir = ''/tmp'', open_wb_error = (\<lambda>p. None), read_error = (\<lambda>p. None),
            remove_error = (\<lambda>p. None)\<rparr>
         Map.empty
         \<lparr>entry_id = ''4_z1'', entry_name = ''a.pdf'', entry_size = 8, entry_upload_timestamp = 7\<rparr>)
   = [St_error (Erro_ao_gerar_URL_assinada ''unauthorized''),
      St_error Nao_foi_possivel_gerar_a_URL,
      St_success PDF_carregado_usando_metodo_alternativo,
      St_markdown_link ''data:application/pdf;base64,JVBERi0xLjQ='']"
  by (simp add: visualizar_pdf_def get_signed_url_def truthy_def download_file_from_b2_def
        download_try_def os_path_join_def)

text \<open>
  Claim C7, amended. Whenever issuing the signed URL raises \<open>e\<close>, "Visualizar PDF"
  shows the error of \<open>get_signed_url\<close> with \<open>e\<close> and the error announcing the
  alternative method, and then always runs the download. If the download returns the
  bytes, a success message and the link with the inline base64 data URL follow; only if
  the download raises does the final error "Erro ao visualizar arquivo" follow.
\<close>

theorem fallback_after_signed_url_failure:
  assumes "case get_download_authorization bucket (entry_name selected_file) 60 of
             Inl e' \<Rightarrow> e' = e
           | Inr auth_token \<Rightarrow> get_download_url bucket (entry_name selected_file) = Inl e"
  shows "visualizar_pdf b64encode bucket h files selected_file =
           (let d = download_file_from_b2 bucket h files
                      (entry_id selected_file) (entry_name selected_file)
            in (fst (snd d),
                [St_error (Erro_ao_gerar_URL_assinada e), St_error Nao_foi_possivel_gerar_a_URL]
                @ snd (snd d)
                @ (case fst d of
                     Inl e' \<Rightarrow> [St_error (Erro_ao_visualizar_arquivo e')]
                   | Inr pdf_bytes \<Rightarrow>
                       [St_success PDF_carregado_usando_metodo_alternativo,
                        St_markdown_link (''data:application/pdf;base64,'' @ b64encode pdf_bytes)])))"
proof -
  from assms have "get_signed_url bucket (entry_name selected_file) 60
      = (None, [St_error (Erro_ao_gerar_URL_assinada e)])"
    by (auto simp: get_signed_url_def split: sum.splits)
  then show ?thesis
    by (simp add: visualizar_pdf_def truthy_def Let_def split: prod.splits sum.splits)
qed

theorem fallback_after_signed_url_failure_witness:
  "get_download_authorization
       \<lparr>ls = Inr [], upload_bytes = (\<lambda>d n. Inl ''off''),
          download_file_by_id = (\<lambda>i. Inl ''timeout''),
          get_download_authorization = (\<lambda>n t. Inr ''4_z3''),
          get_download_url = (\<lambda>n. Inl ''no such file'')\<rparr> ''a.pdf'' 60 = Inr ''4_z3''
   \<and> visualizar_pdf (\<lambda>b. ''JVBERi0xLjQ='')
         \<lparr>ls = Inr [], upload_bytes = (\<lambda>d n. Inl ''off''),
            download_file_by_id = (\<lambda>i. Inl ''timeout''),
            get_download_authorization = (\<lambda>n t. Inr ''4_z3''),
            get_download_url = (\<lambda>n. Inl ''no such file'')\<rparr>
         \<lparr>gettempdir = ''/tmp'', open_wb_error = (\<lambda>p. None), read_error = (\<lambda>p. None),
            remove_error = (\<lambda>p. None)\<rparr>
         Map.empty
         \<lparr>entry_id = ''4_z1'', entry_name = ''a.pdf'', entry_size = 8, entry_upload_timestamp = 7\<rparr>
     = (Map.empty,
        [St_error (Erro_ao_gerar_URL_assinada ''no such file''),
         St_error Nao_foi_possivel_gerar_a_URL,
         St_error (Erro_ao_baixar_arquivo ''timeout''),
         St_error (Erro_ao_visualizar_arquivo ''timeout'')])"
proof -
  let ?bucket = "\<lparr>ls = Inr [], upload_bytes = (\<lambda>d n. Inl ''off''),
            download_file_by_id = (\<lambda>i. Inl ''timeout''),
            get_download_authorization = (\<lambda>n t. Inr ''4_z3''),
            get_download_url = (\<lambda>n. Inl ''no such file'')\<rparr>"
  let ?sel = "\<lparr>entry_id = ''4_z1'', entry_name = ''a.pdf'', entry_size = 8, entry_upload_timestamp = 7\<rparr>"
  have fails: "case get_download_authorization ?bucket (entry_name ?sel) 60 of
             Inl e' \<Rightarrow> e' = ''no such file''
           | Inr auth_token \<Rightarrow> get_download_url ?bucket (entry_name ?sel) = Inl ''no such file''"
    by simp
  show ?thesis
    using fallback_after_signed_url_failure [OF fails, of "\<lambda>b. ''JVBERi0xLjQ=''"
        "\<lparr>gettempdir = ''/tmp'', open_wb_error = (\<lambda>p. None), read_error = (\<lambda>p. None),
            remove_error = (\<lambda>p. None)\<rparr>" Map.empty]
    by (simp add: download_file_from_b2_def download_try_def)
qed

end
